theory Spec2Isabelle
  imports Main
begin

section \<open>The bridging header \<open>ios/Blaze-Bridging-Header.h\<close>\<close>

text \<open>
  The repository's only source file is an Objective-C bridging header: six comment lines,
  an include guard (\<open>#ifndef\<close>, \<open>#define\<close>, \<open>#endif\<close>) and five \<open>#import\<close>
  directives naming React headers. The file is embedded as its text, line by line, and
  given meaning by a small model of the C preprocessor: each line is classified, and the
  classified lines are run over a preprocessor state.

  The React headers themselves are not part of the repository. What entering a header
  does (finding it on the search path, then processing its text) is therefore a parameter
  of the model, the \<open>importer\<close>: entering a header can fail, and it can change the macros
  and the program text like any other text. Every property below says which importer it is
  about: all of them, those that satisfy a stated condition, or \<open>no_content\<close>, under
  which each header is found and contributes nothing, so that what is left is the effect
  of the file's own directives.
\<close>

subsection \<open>The text of the file\<close>

definition Blaze_Bridging_Header_h :: string where
  "Blaze_Bridging_Header_h = ''Blaze_Bridging_Header_h''"

definition header_lines :: "string list" where
  "header_lines =
    [ ''//'',
      ''//  Blaze-Bridging-Header.h'',
      ''//  Blaze'',
      ''//'',
      ''//  Bridging header for Swift/Objective-C interop'',
      ''//'',
      '''',
      ''#ifndef Blaze_Bridging_Header_h'',
      ''#define Blaze_Bridging_Header_h'',
      '''',
      ''#import <React/RCTBridgeModule.h>'',
      ''#import <React/RCTEventEmitter.h>'',
      ''#import <React/RCTViewManager.h>'',
      ''#import <React/RCTConvert.h>'',
      ''#import <React/RCTLog.h>'',
      '''',
      ''#endif /* Blaze_Bridging_Header_h */'' ]"

subsection \<open>Classifying a line\<close>

datatype line =
    Blank
  | Comment
  | Ifndef string
  | Ifdef string
  | Define string string
  | Undef string
  | Import string
  | Include string
  | Endif
  | Code string
  | Unsupported string
  | Malformed string

definition is_space :: "char \<Rightarrow> bool" where
  "is_space c = (c = CHR '' '' \<or> c = CHR 0x09)"

definition is_digit :: "char \<Rightarrow> bool" where
  "is_digit c = (c \<in> set ''0123456789'')"

definition is_ident_char :: "char \<Rightarrow> bool" where
  "is_ident_char c =
    (c \<in> set ''abcdefghijklmnopqrstuvwxyz'' \<or> c \<in> set ''ABCDEFGHIJKLMNOPQRSTUVWXYZ''
      \<or> c = CHR ''_'' \<or> is_digit c)"

definition is_identifier :: "string \<Rightarrow> bool" where
  "is_identifier s =
    (case s of [] \<Rightarrow> False | c # cs \<Rightarrow> is_ident_char c \<and> \<not> is_digit c \<and> list_all is_ident_char cs)"

definition trim :: "string \<Rightarrow> string" where
  "trim s = rev (dropWhile is_space (rev (dropWhile is_space s)))"

text \<open>
  Comments are removed from a line before it is read: \<open>//\<close> ends the line, and a block
  comment that opens and closes on the line is replaced by one space. The flag says whether
  the scan is inside a block comment. A block comment still open at the end of the line
  gives \<open>None\<close>: comments spanning several lines are not covered by this model, and such a
  line is reported as malformed.
\<close>

fun uncomment :: "bool \<Rightarrow> string \<Rightarrow> string option" where
  "uncomment inside [] = (if inside then None else Some [])"
| "uncomment inside [c] = (if inside then None else Some [c])"
| "uncomment inside (c # d # cs) =
    (if inside then
       (if c = CHR ''*'' \<and> d = CHR ''/'' then map_option ((#) CHR '' '') (uncomment False cs)
        else uncomment True (d # cs))
     else if c = CHR ''/'' \<and> d = CHR ''/'' then Some []
     else if c = CHR ''/'' \<and> d = CHR ''*'' then uncomment True cs
     else map_option ((#) c) (uncomment False (d # cs)))"

text \<open>
  The operand of \<open>#import\<close> and \<open>#include\<close>: a header name between angle brackets or
  between double quotes.
\<close>

definition header_name :: "string \<Rightarrow> string option" where
  "header_name a =
    (if 3 \<le> length a \<and>
        ((hd a = CHR ''<'' \<and> last a = CHR ''>'') \<or> (hd a = CHR 0x22 \<and> last a = CHR 0x22))
     then Some (butlast (tl a)) else None)"

text \<open>
  A directive, read after its \<open>#\<close>: the directive's name, then its operand. Only the
  directives of conditional inclusion by definedness, macro definition and header import
  are modelled; any other directive, and a function-like macro, is \<open>Unsupported\<close>.
\<close>

definition directive :: "string \<Rightarrow> line" where
  "directive d =
    (let name = takeWhile is_ident_char d;
         arg = trim (dropWhile is_ident_char d)
     in if name = ''ifndef'' then (if is_identifier arg then Ifndef arg else Malformed d)
        else if name = ''ifdef'' then (if is_identifier arg then Ifdef arg else Malformed d)
        else if name = ''undef'' then (if is_identifier arg then Undef arg else Malformed d)
        else if name = ''define'' then
          (let m = takeWhile is_ident_char arg; rest = dropWhile is_ident_char arg
           in if \<not> is_identifier m then Malformed d
              else if rest \<noteq> [] \<and> hd rest = CHR ''('' then Unsupported name
              else Define m (trim rest))
        else if name = ''import'' then
          (case header_name arg of Some h \<Rightarrow> Import h | None \<Rightarrow> Malformed d)
        else if name = ''include'' then
          (case header_name arg of Some h \<Rightarrow> Include h | None \<Rightarrow> Malformed d)
        else if name = ''endif'' then (if arg = [] then Endif else Malformed d)
        else Unsupported name)"

definition classify :: "string \<Rightarrow> line" where
  "classify raw =
    (case uncomment False raw of
       None \<Rightarrow> Malformed raw
     | Some s \<Rightarrow>
        (let t = trim s
         in if t = [] then (if trim raw = [] then Blank else Comment)
            else if hd t = CHR ''#'' then directive (trim (tl t))
            else Code t))"

fun is_import :: "line \<Rightarrow> bool" where
  "is_import (Import h) = True"
| "is_import (Include h) = True"
| "is_import l = False"

fun is_code :: "line \<Rightarrow> bool" where
  "is_code (Code c) = True"
| "is_code l = False"

fun import_of :: "line \<Rightarrow> string list" where
  "import_of (Import h) = [h]"
| "import_of (Include h) = [h]"
| "import_of l = []"

fun code_of :: "line \<Rightarrow> string list" where
  "code_of (Code c) = [c]"
| "code_of l = []"

definition file_imports :: "string list \<Rightarrow> string list" where
  "file_imports ls = concat (map (import_of \<circ> classify) ls)"

definition file_code :: "string list \<Rightarrow> string list" where
  "file_code ls = concat (map (code_of \<circ> classify) ls)"

subsection \<open>Running the preprocessor\<close>

text \<open>
  The state of a translation unit as far as this file can touch it: the macro environment
  (name to replacement text), the set of headers entered so far, the set of headers
  marked to be entered once only (which is what \<open>#import\<close> does to a header), and the
  program text handed on to the compiler, which is where every declared entity (function,
  type, variable, statement) of a file ends up.
\<close>

record pp_state =
  macros :: "string \<rightharpoonup> string"
  imported :: "string set"
  once_only :: "string set"
  decls :: "string list"

datatype pp_error =
    StrayEndif
  | UnterminatedConditional
  | MalformedLine string
  | UnsupportedDirective string
  | HeaderNotFound string
  | IncludeTooDeep string

text \<open>
  An importer gives the effect of entering a header in a state: an error, when the header
  is not found or its text fails, or the state after its text.
\<close>

type_synonym importer = "string \<Rightarrow> pp_state \<Rightarrow> pp_error + pp_state"

text \<open>
  \<open>#import\<close> (\<open>once\<close> true) marks the header once-only and enters it unless it has been
  entered before. \<open>#include\<close> enters the header unless it has been entered before and is
  marked once-only. A header that is entered is recorded in \<open>imported\<close> first.
\<close>

definition enter :: "importer \<Rightarrow> bool \<Rightarrow> string \<Rightarrow> pp_state \<Rightarrow> pp_error + pp_state" where
  "enter imp once h s =
    (if once then
       (if h \<in> imported s then Inr (s\<lparr>once_only := insert h (once_only s)\<rparr>)
        else imp h (s\<lparr>imported := insert h (imported s), once_only := insert h (once_only s)\<rparr>))
     else
       (if h \<in> imported s \<and> h \<in> once_only s then Inr s
        else imp h (s\<lparr>imported := insert h (imported s)\<rparr>)))"

text \<open>
  The stack holds one flag per open conditional: whether its group is being kept. A line
  takes effect only when every open group is kept.
\<close>

definition active :: "bool list \<Rightarrow> bool" where
  "active stk = (False \<notin> set stk)"

fun step :: "importer \<Rightarrow> line \<Rightarrow> bool list \<times> pp_state \<Rightarrow> pp_error + bool list \<times> pp_state" where
  "step imp Blank (stk, s) = Inr (stk, s)"
| "step imp Comment (stk, s) = Inr (stk, s)"
| "step imp (Ifndef m) (stk, s) = Inr ((macros s m = None) # stk, s)"
| "step imp (Ifdef m) (stk, s) = Inr ((macros s m \<noteq> None) # stk, s)"
| "step imp (Define m b) (stk, s) =
    Inr (stk, if active stk then s\<lparr>macros := (macros s)(m \<mapsto> b)\<rparr> else s)"
| "step imp (Undef m) (stk, s) =
    Inr (stk, if active stk then s\<lparr>macros := (macros s)(m := None)\<rparr> else s)"
| "step imp (Import h) (stk, s) =
    (if active stk then
       (case enter imp True h s of Inl e \<Rightarrow> Inl e | Inr s' \<Rightarrow> Inr (stk, s'))
     else Inr (stk, s))"
| "step imp (Include h) (stk, s) =
    (if active stk then
       (case enter imp False h s of Inl e \<Rightarrow> Inl e | Inr s' \<Rightarrow> Inr (stk, s'))
     else Inr (stk, s))"
| "step imp Endif (stk, s) = (case stk of [] \<Rightarrow> Inl StrayEndif | b # bs \<Rightarrow> Inr (bs, s))"
| "step imp (Code c) (stk, s) =
    Inr (stk, if active stk then s\<lparr>decls := decls s @ [c]\<rparr> else s)"
| "step imp (Unsupported d) (stk, s) = Inl (UnsupportedDirective d)"
| "step imp (Malformed t) (stk, s) = Inl (MalformedLine t)"

fun run_lines ::
  "importer \<Rightarrow> line list \<Rightarrow> bool list \<times> pp_state \<Rightarrow> pp_error + bool list \<times> pp_state" where
  "run_lines imp [] c = Inr c"
| "run_lines imp (l # ls) c =
    (case step imp l c of Inl e \<Rightarrow> Inl e | Inr c' \<Rightarrow> run_lines imp ls c')"

text \<open>
  A file is processed with a conditional stack of its own, which must be empty again at
  its end.
\<close>

definition preprocess :: "importer \<Rightarrow> string list \<Rightarrow> pp_state \<Rightarrow> pp_error + pp_state" where
  "preprocess imp ls s =
    (case run_lines imp (map classify ls) ([], s) of
       Inl e \<Rightarrow> Inl e
     | Inr (stk, s') \<Rightarrow> if stk = [] then Inr s' else Inl UnterminatedConditional)"

definition process_file :: "importer \<Rightarrow> pp_state \<Rightarrow> pp_error + pp_state" where
  "process_file imp s = preprocess imp header_lines s"

text \<open>
  Entering a list of headers with \<open>#import\<close>, one after the other, stopping at the first
  error.
\<close>

fun import_all :: "importer \<Rightarrow> string list \<Rightarrow> pp_state \<Rightarrow> pp_error + pp_state" where
  "import_all imp [] s = Inr s"
| "import_all imp (h # hs) s =
    (case enter imp True h s of Inl e \<Rightarrow> Inl e | Inr s' \<Rightarrow> import_all imp hs s')"

subsection \<open>Importers\<close>

text \<open>
  The importer under which every header is found and has no content. Processing the file
  with it gives the effect of the file's own directives and nothing else.
\<close>

definition no_content :: importer where
  "no_content h s = Inr s"

text \<open>
  The importer of a search path, given as a table from header names to their lines: a
  header missing from the table is not found, and a header that is found is processed like
  any file, its own imports going through the same table. The number bounds the nesting of
  inclusions, which compilers limit (to 200).
\<close>

primrec importer_of :: "(string \<rightharpoonup> string list) \<Rightarrow> nat \<Rightarrow> importer" where
  "importer_of tbl 0 = (\<lambda>h s. Inl (IncludeTooDeep h))"
| "importer_of tbl (Suc n) =
    (\<lambda>h s. case tbl h of
       None \<Rightarrow> Inl (HeaderNotFound h)
     | Some ls \<Rightarrow> preprocess (importer_of tbl n) ls s)"

definition max_include_depth :: nat where
  "max_include_depth = 200"

text \<open>
  Two search paths. The first holds what the repository holds: no React header at all.
  The second holds stand-ins for the five React headers (their real text is not in the
  repository): one defines a macro when \<open>DEBUG\<close> is defined, one defines a macro unless it
  is defined already, and three hold a comment only.
\<close>

definition no_headers :: "string \<rightharpoonup> string list" where
  "no_headers h = None"

definition react_stand_ins :: "string \<rightharpoonup> string list" where
  "react_stand_ins h =
    (if h = ''React/RCTBridgeModule.h'' then
       Some [''#ifdef DEBUG'', ''#define RCT_DEBUG 1'', ''#endif'']
     else if h = ''React/RCTLog.h'' then
       Some [''#ifndef RCTLOG_ENABLED'', ''#define RCTLOG_ENABLED 1'', ''#endif'']
     else if h = ''React/RCTEventEmitter.h'' \<or> h = ''React/RCTViewManager.h''
          \<or> h = ''React/RCTConvert.h'' then
       Some [''// stand-in'']
     else None)"

definition repository_only :: importer where
  "repository_only = importer_of no_headers max_include_depth"

definition with_stand_ins :: importer where
  "with_stand_ins = importer_of react_stand_ins max_include_depth"

text \<open>Reading one macro off the result of processing.\<close>

definition macro_after :: "pp_error + pp_state \<Rightarrow> string \<Rightarrow> pp_error + string option" where
  "macro_after r m = map_sum id (\<lambda>s. macros s m) r"

subsection \<open>States to start from\<close>

definition empty_state :: pp_state where
  "empty_state = \<lparr>macros = Map.empty, imported = {}, once_only = {}, decls = []\<rparr>"

text \<open>
  A state in which an unrelated macro is defined, a header has been included and a
  declaration has been seen.
\<close>

definition debug_state :: pp_state where
  "debug_state = \<lparr>macros = [''DEBUG'' \<mapsto> ''1''], imported = {''Foundation/Foundation.h''},
     once_only = {}, decls = [''int counter;'']\<rparr>"

subsection \<open>What the compiled program does with the file's own text\<close>

text \<open>
  The run-time effect of program text on a program state of any type: each piece of
  code handed to the compiler acts on the state through its interpretation \<open>exec\<close>, in
  order.
\<close>

definition run_program :: "(string \<Rightarrow> 's \<Rightarrow> 's) \<Rightarrow> string list \<Rightarrow> 's \<Rightarrow> 's" where
  "run_program exec cs \<sigma> = fold exec cs \<sigma>"

subsection \<open>The capabilities listed by the specification\<close>

text \<open>
  The specification lists five capabilities that the surrounding native code takes from
  the imported headers. \<open>capability_of\<close> follows that list, not the source: it names the
  capability each React header stands for.
\<close>

datatype capability =
    ModuleRegistration
  | EventEmission
  | ViewManagement
  | TypeConversion
  | Logging

definition capability_of :: "string \<Rightarrow> capability option" where
  "capability_of h =
    (if h = ''React/RCTBridgeModule.h'' then Some ModuleRegistration
     else if h = ''React/RCTEventEmitter.h'' then Some EventEmission
     else if h = ''React/RCTViewManager.h'' then Some ViewManagement
     else if h = ''React/RCTConvert.h'' then Some TypeConversion
     else if h = ''React/RCTLog.h'' then Some Logging
     else None)"

section \<open>Properties\<close>

subsection \<open>The file, line by line\<close>

lemma classify_header_lines:
  "map classify header_lines =
    [Comment, Comment, Comment, Comment, Comment, Comment, Blank,
     Ifndef ''Blaze_Bridging_Header_h'', Define ''Blaze_Bridging_Header_h'' [], Blank,
     Import ''React/RCTBridgeModule.h'', Import ''React/RCTEventEmitter.h'',
     Import ''React/RCTViewManager.h'', Import ''React/RCTConvert.h'',
     Import ''React/RCTLog.h'', Blank, Endif]"
  by code_simp

lemma file_imports_header:
  "file_imports header_lines =
    [''React/RCTBridgeModule.h'', ''React/RCTEventEmitter.h'',
     ''React/RCTViewManager.h'', ''React/RCTConvert.h'', ''React/RCTLog.h'']"
  by code_simp

lemma file_code_header: "file_code header_lines = []"
  by code_simp

subsection \<open>The two runs of the file\<close>

text \<open>
  Either the guard is undefined, and the file defines it and then imports its five headers
  in order, or the guard is defined, and every line up to \<open>#endif\<close> is skipped.
\<close>

lemma run_imports:
  "active stk \<Longrightarrow>
    run_lines imp (map Import hs @ rest) (stk, s) =
      (case import_all imp hs s of Inl e \<Rightarrow> Inl e | Inr s' \<Rightarrow> run_lines imp rest (stk, s'))"
  by (induction hs arbitrary: s) (auto split: sum.splits)

lemma run_header_undefined:
  assumes "macros s Blaze_Bridging_Header_h = None"
  shows "run_lines imp (map classify header_lines) ([], s) =
    (case import_all imp (file_imports header_lines)
            (s\<lparr>macros := (macros s)(Blaze_Bridging_Header_h \<mapsto> [])\<rparr>) of
       Inl e \<Rightarrow> Inl e | Inr s' \<Rightarrow> Inr ([], s'))"
proof -
  have split: "map classify header_lines =
      [Comment, Comment, Comment, Comment, Comment, Comment, Blank,
       Ifndef Blaze_Bridging_Header_h, Define Blaze_Bridging_Header_h [], Blank]
      @ (map Import (file_imports header_lines) @ [Blank, Endif])"
    by (simp add: classify_header_lines file_imports_header Blaze_Bridging_Header_h_def)
  have a: "active [True]" by (simp add: active_def)
  have "run_lines imp (map classify header_lines) ([], s) =
      run_lines imp (map Import (file_imports header_lines) @ [Blank, Endif])
        ([True], s\<lparr>macros := (macros s)(Blaze_Bridging_Header_h \<mapsto> [])\<rparr>)"
    unfolding split using assms by (simp add: active_def)
  also have "\<dots> = (case import_all imp (file_imports header_lines)
            (s\<lparr>macros := (macros s)(Blaze_Bridging_Header_h \<mapsto> [])\<rparr>) of
       Inl e \<Rightarrow> Inl e | Inr s' \<Rightarrow> Inr ([], s'))"
    unfolding run_imports [OF a] by (simp split: sum.splits)
  finally show ?thesis .
qed

lemma run_header_defined:
  assumes "macros s Blaze_Bridging_Header_h = Some b"
  shows "run_lines imp (map classify header_lines) ([], s) = Inr ([], s)"
  using assms
  by (simp add: classify_header_lines active_def Blaze_Bridging_Header_h_def)

lemma process_file_undefined:
  "macros s Blaze_Bridging_Header_h = None \<Longrightarrow>
    process_file imp s =
      import_all imp (file_imports header_lines)
        (s\<lparr>macros := (macros s)(Blaze_Bridging_Header_h \<mapsto> [])\<rparr>)"
  by (simp add: process_file_def preprocess_def run_header_undefined split: sum.splits)

lemma process_file_defined:
  "macros s Blaze_Bridging_Header_h = Some b \<Longrightarrow> process_file imp s = Inr s"
  by (simp add: process_file_def preprocess_def run_header_defined)

subsection \<open>Imports that contribute nothing\<close>

lemma enter_no_content:
  "enter no_content True h s =
    Inr (s\<lparr>imported := insert h (imported s), once_only := insert h (once_only s)\<rparr>)"
  by (simp add: enter_def no_content_def insert_absorb)

lemma import_all_no_content:
  "import_all no_content hs s =
    Inr (s\<lparr>imported := imported s \<union> set hs, once_only := once_only s \<union> set hs\<rparr>)"
  by (induction hs arbitrary: s) (simp_all add: enter_no_content)

lemma process_file_own_undefined:
  "macros s Blaze_Bridging_Header_h = None \<Longrightarrow>
    process_file no_content s =
      Inr (s\<lparr>macros := (macros s)(Blaze_Bridging_Header_h \<mapsto> []),
              imported := imported s \<union> set (file_imports header_lines),
              once_only := once_only s \<union> set (file_imports header_lines)\<rparr>)"
  by (simp add: process_file_undefined import_all_no_content)

subsection \<open>What the imports keep, the file keeps\<close>

lemma enter_keeps:
  assumes "enter imp once h s = Inr s'"
    and "\<And>s0 s1. imp h s0 = Inr s1 \<Longrightarrow> f s1 = f s0"
    and "\<And>t X. f (t\<lparr>imported := X\<rparr>) = f t"
    and "\<And>t X. f (t\<lparr>once_only := X\<rparr>) = f t"
  shows "f s' = f s"
  using assms(1) assms(2) [of _ s']
  by (auto simp: enter_def assms(3,4) split: if_splits)

lemma import_all_keeps:
  assumes "import_all imp hs s = Inr s'"
    and "\<And>h s0 s1. h \<in> set hs \<Longrightarrow> imp h s0 = Inr s1 \<Longrightarrow> f s1 = f s0"
    and "\<And>t X. f (t\<lparr>imported := X\<rparr>) = f t"
    and "\<And>t X. f (t\<lparr>once_only := X\<rparr>) = f t"
  shows "f s' = f s"
  using assms(1,2)
proof (induction hs arbitrary: s)
  case Nil
  then show ?case by simp
next
  case (Cons h hs)
  from Cons.prems(1) obtain t where t: "enter imp True h s = Inr t"
    and r: "import_all imp hs t = Inr s'"
    by (auto split: sum.splits)
  have "f t = f s"
    using t Cons.prems(2) [of h] assms(3,4) by (rule enter_keeps) simp_all
  moreover have "f s' = f t"
    using r Cons.prems(2) by (rule Cons.IH) simp_all
  ultimately show ?case by simp
qed

lemma import_all_succeeds:
  assumes "\<And>h s0. h \<in> set hs \<Longrightarrow> \<exists>s1. imp h s0 = Inr s1"
  shows "\<exists>s'. import_all imp hs s = Inr s'"
  using assms
proof (induction hs arbitrary: s)
  case Nil
  then show ?case by simp
next
  case (Cons h hs)
  have "\<exists>t. enter imp True h s = Inr t"
    using Cons.prems [of h] by (simp add: enter_def)
  then obtain t where t: "enter imp True h s = Inr t" ..
  have "\<exists>s'. import_all imp hs t = Inr s'"
    using Cons.prems by (intro Cons.IH) simp
  with t show ?case by simp
qed

lemma import_all_error:
  "import_all imp hs s = Inl e \<Longrightarrow> \<exists>h s0. h \<in> set hs \<and> imp h s0 = Inl e"
proof (induction hs arbitrary: s)
  case Nil
  then show ?case by simp
next
  case (Cons h hs)
  show ?case
  proof (cases "enter imp True h s")
    case (Inl e')
    with Cons.prems have "e' = e" by simp
    with Inl have "\<exists>s0. imp h s0 = Inl e"
      by (auto simp: enter_def split: if_splits)
    then show ?thesis by auto
  next
    case (Inr t)
    with Cons.prems have "import_all imp hs t = Inl e" by simp
    from Cons.IH [OF this] show ?thesis by auto
  qed
qed

lemma process_file_succeeds_if:
  assumes "\<And>h s0. h \<in> set (file_imports header_lines) \<Longrightarrow> \<exists>s1. imp h s0 = Inr s1"
  shows "\<exists>s'. process_file imp s = Inr s'"
proof (cases "macros s Blaze_Bridging_Header_h")
  case None
  then show ?thesis
    using import_all_succeeds [of "file_imports header_lines" imp] assms
    by (simp add: process_file_undefined)
next
  case (Some b)
  then show ?thesis by (simp add: process_file_defined)
qed

lemma process_file_error:
  assumes "process_file imp s = Inl e"
  shows "\<exists>h s0. h \<in> set (file_imports header_lines) \<and> imp h s0 = Inl e"
proof (cases "macros s Blaze_Bridging_Header_h")
  case None
  with assms have "import_all imp (file_imports header_lines)
      (s\<lparr>macros := (macros s)(Blaze_Bridging_Header_h \<mapsto> [])\<rparr>) = Inl e"
    by (simp add: process_file_undefined)
  then show ?thesis by (rule import_all_error)
next
  case (Some b)
  with assms show ?thesis by (simp add: process_file_defined)
qed

lemma process_file_keeps:
  assumes "process_file imp s = Inr t"
    and "\<And>h s0 s1. h \<in> set (file_imports header_lines) \<Longrightarrow> imp h s0 = Inr s1 \<Longrightarrow> f s1 = f s0"
    and "\<And>u X. f (u\<lparr>imported := X\<rparr>) = f u"
    and "\<And>u X. f (u\<lparr>once_only := X\<rparr>) = f u"
    and "\<And>u. f (u\<lparr>macros := (macros u)(Blaze_Bridging_Header_h \<mapsto> [])\<rparr>) = f u"
  shows "f t = f s"
proof (cases "macros s Blaze_Bridging_Header_h")
  case None
  with assms(1) have "import_all imp (file_imports header_lines)
      (s\<lparr>macros := (macros s)(Blaze_Bridging_Header_h \<mapsto> [])\<rparr>) = Inr t"
    by (simp add: process_file_undefined)
  then have "f t = f (s\<lparr>macros := (macros s)(Blaze_Bridging_Header_h \<mapsto> [])\<rparr>)"
    using assms(2,3,4) by (rule import_all_keeps)
  then show ?thesis by (simp add: assms(5))
next
  case (Some b)
  with assms(1) show ?thesis by (simp add: process_file_defined)
qed

lemma process_file_own:
  "\<exists>s'. process_file no_content s = Inr s' \<and> decls s' = decls s
     \<and> (\<forall>m. m \<noteq> Blaze_Bridging_Header_h \<longrightarrow> macros s' m = macros s m)"
  by (cases "macros s Blaze_Bridging_Header_h")
    (simp_all add: process_file_own_undefined process_file_defined)

subsection \<open>Lines that are not code hand nothing to the compiler\<close>

lemma step_keeps_decls:
  "\<not> is_code l \<Longrightarrow> step no_content l c = Inr c' \<Longrightarrow> decls (snd c') = decls (snd c)"
  by (cases l; cases c)
    (auto simp: enter_def no_content_def split: list.splits if_splits sum.splits)

lemma run_lines_keeps_decls:
  "\<not> list_ex is_code ls \<Longrightarrow> run_lines no_content ls c = Inr c' \<Longrightarrow>
    decls (snd c') = decls (snd c)"
proof (induction ls arbitrary: c)
  case Nil
  then show ?case by simp
next
  case (Cons l ls)
  from Cons.prems obtain d where d: "step no_content l c = Inr d"
    and r: "run_lines no_content ls d = Inr c'"
    by (auto split: sum.splits)
  from Cons.prems have "\<not> is_code l" and "\<not> list_ex is_code ls" by simp_all
  then show ?case using Cons.IH [OF _ r] step_keeps_decls [OF _ d] by simp
qed

lemma run_lines_prefix:
  "run_lines imp (xs @ ys) c = Inr c' \<Longrightarrow> \<exists>d. run_lines imp xs c = Inr d"
  by (induction xs arbitrary: c) (auto split: sum.splits)

subsection \<open>The two search paths\<close>

lemma depth_Suc: "max_include_depth = Suc 199"
  by (simp add: max_include_depth_def)

lemma repository_only_not_found: "repository_only h s = Inl (HeaderNotFound h)"
  unfolding repository_only_def depth_Suc importer_of.simps
  by (simp add: no_headers_def)

lemma repository_only_fails:
  "process_file repository_only empty_state = Inl (HeaderNotFound ''React/RCTBridgeModule.h'')"
proof -
  have "macros empty_state Blaze_Bridging_Header_h = None"
    by (simp add: empty_state_def)
  then show ?thesis
    by (simp add: process_file_undefined file_imports_header enter_def
        repository_only_not_found empty_state_def)
qed

lemma classify_stand_ins:
  "map classify [''#ifdef DEBUG'', ''#define RCT_DEBUG 1'', ''#endif''] =
     [Ifdef ''DEBUG'', Define ''RCT_DEBUG'' ''1'', Endif]"
  "map classify [''#ifndef RCTLOG_ENABLED'', ''#define RCTLOG_ENABLED 1'', ''#endif''] =
     [Ifndef ''RCTLOG_ENABLED'', Define ''RCTLOG_ENABLED'' ''1'', Endif]"
  "map classify [''// stand-in''] = [Comment]"
  by code_simp+

lemma stand_in_bridge_module:
  "with_stand_ins ''React/RCTBridgeModule.h'' s =
    Inr (if macros s ''DEBUG'' = None then s else s\<lparr>macros := (macros s)(''RCT_DEBUG'' \<mapsto> ''1'')\<rparr>)"
  unfolding with_stand_ins_def depth_Suc importer_of.simps
  by (simp add: react_stand_ins_def preprocess_def classify_stand_ins active_def
      del: list.map)

lemma stand_in_log:
  "with_stand_ins ''React/RCTLog.h'' s =
    Inr (if macros s ''RCTLOG_ENABLED'' = None
         then s\<lparr>macros := (macros s)(''RCTLOG_ENABLED'' \<mapsto> ''1'')\<rparr> else s)"
  unfolding with_stand_ins_def depth_Suc importer_of.simps
  by (simp add: react_stand_ins_def preprocess_def classify_stand_ins active_def
      del: list.map)

lemma stand_in_comment:
  "h = ''React/RCTEventEmitter.h'' \<or> h = ''React/RCTViewManager.h'' \<or> h = ''React/RCTConvert.h''
    \<Longrightarrow> with_stand_ins h s = Inr s"
  unfolding with_stand_ins_def depth_Suc importer_of.simps
  by (auto simp add: react_stand_ins_def preprocess_def classify_stand_ins
      simp del: list.map)

lemmas stand_ins = stand_in_bridge_module stand_in_log stand_in_comment

lemma stand_ins_succeed:
  "h \<in> set (file_imports header_lines) \<Longrightarrow> \<exists>s1. with_stand_ins h s0 = Inr s1"
  by (auto simp: file_imports_header stand_ins)

lemma stand_ins_keep_decls:
  "h \<in> set (file_imports header_lines) \<Longrightarrow> with_stand_ins h s0 = Inr s1 \<Longrightarrow> decls s1 = decls s0"
  by (auto simp: file_imports_header stand_ins split: if_splits)

lemma stand_ins_keep_DEBUG:
  "h \<in> set (file_imports header_lines) \<Longrightarrow> with_stand_ins h s0 = Inr s1 \<Longrightarrow>
    macros s1 ''DEBUG'' = macros s0 ''DEBUG''"
  by (auto simp: file_imports_header stand_ins split: if_splits)

lemma stand_ins_empty_state:
  "process_file with_stand_ins empty_state =
    Inr (empty_state\<lparr>macros := (macros empty_state)
            (Blaze_Bridging_Header_h \<mapsto> [], ''RCTLOG_ENABLED'' \<mapsto> ''1''),
          imported := set (file_imports header_lines),
          once_only := set (file_imports header_lines)\<rparr>)"
proof -
  have "macros empty_state Blaze_Bridging_Header_h = None"
    by (simp add: empty_state_def)
  then show ?thesis
    by (simp add: process_file_undefined file_imports_header enter_def stand_ins
        empty_state_def Blaze_Bridging_Header_h_def insert_commute)
qed

lemma stand_ins_debug_state:
  "process_file with_stand_ins debug_state =
    Inr (debug_state\<lparr>macros := (macros debug_state)
            (Blaze_Bridging_Header_h \<mapsto> [], ''RCT_DEBUG'' \<mapsto> ''1'', ''RCTLOG_ENABLED'' \<mapsto> ''1''),
          imported := imported debug_state \<union> set (file_imports header_lines),
          once_only := set (file_imports header_lines)\<rparr>)"
proof -
  have "macros debug_state Blaze_Bridging_Header_h = None"
    by (simp add: debug_state_def Blaze_Bridging_Header_h_def)
  then show ?thesis
    by (simp add: process_file_undefined file_imports_header enter_def stand_ins
        debug_state_def Blaze_Bridging_Header_h_def insert_commute)
qed

section \<open>The claims about the file\<close>

subsection \<open>The imported headers\<close>

text \<open>
  Claim C1. The headers imported by the file are exactly the five React headers
  \<open>RCTBridgeModule\<close>, \<open>RCTEventEmitter\<close>, \<open>RCTViewManager\<close>, \<open>RCTConvert\<close> and
  \<open>RCTLog\<close>, each imported once, and they stand one for one, in that order, for the five
  capabilities of the specification: module registration, event emission, view management,
  type conversion and logging. The file's own directives, processed in the empty state,
  import exactly these five headers and no other.
\<close>

theorem imports_are_the_five_capabilities:
  "set (file_imports header_lines) =
     {''React/RCTBridgeModule.h'', ''React/RCTEventEmitter.h'', ''React/RCTViewManager.h'',
      ''React/RCTConvert.h'', ''React/RCTLog.h''}
   \<and> distinct (file_imports header_lines)
   \<and> length (file_imports header_lines) = 5
   \<and> map capability_of (file_imports header_lines) =
       [Some ModuleRegistration, Some EventEmission, Some ViewManagement,
        Some TypeConversion, Some Logging]
   \<and> map_sum id imported (process_file no_content empty_state) =
       Inr {''React/RCTBridgeModule.h'', ''React/RCTEventEmitter.h'',
            ''React/RCTViewManager.h'', ''React/RCTConvert.h'', ''React/RCTLog.h''}"
proof -
  have "macros empty_state Blaze_Bridging_Header_h = None"
    by (simp add: empty_state_def)
  then have "map_sum id imported (process_file no_content empty_state) =
      Inr (set (file_imports header_lines))"
    by (simp add: process_file_own_undefined empty_state_def)
  then show ?thesis
    by (simp add: file_imports_header capability_of_def)
qed

subsection \<open>The lines of the file\<close>

text \<open>
  Claim C2 says that each of the 17 lines is an import statement. The first line of the
  file is the comment \<open>//\<close>, which is not an import, so not every line is one.
\<close>

theorem not_every_line_is_an_import:
  "\<not> is_import (classify (header_lines ! 0))
   \<and> \<not> list_all is_import (map classify header_lines)"
  by (simp add: classify_header_lines) (simp add: header_lines_def, code_simp)

text \<open>
  Claim C2, as amended. The file has 17 lines, and exactly five of them, lines 11 to 15,
  are import statements.
\<close>

theorem seventeen_lines_five_imports:
  "length header_lines = 17
   \<and> map is_import (map classify header_lines) =
       [False, False, False, False, False, False, False, False, False, False,
        True, True, True, True, True, False, False]
   \<and> length (filter is_import (map classify header_lines)) = 5"
  by (simp add: classify_header_lines) (simp add: header_lines_def)

subsection \<open>No declarations, no run-time behaviour\<close>

text \<open>
  Claim C3. No line of the file is program text: the file declares no function, type or
  variable and holds no statement. So whatever meaning \<open>exec\<close> the compiled program gives
  to program text, running the file's own text is the identity on every program state
  \<open>\<sigma>\<close>; and from every preprocessor state, the text that the file's own directives hand
  to the compiler (what they add to \<open>decls\<close>) is empty and runs as the identity as well.
\<close>

theorem file_declares_nothing:
  "file_code header_lines = []
   \<and> run_program exec (file_code header_lines) \<sigma> = \<sigma>
   \<and> (\<exists>s'. process_file no_content s = Inr s'
        \<and> run_program exec (drop (length (decls s)) (decls s')) \<sigma> = \<sigma>)"
proof -
  obtain s' where "process_file no_content s = Inr s'" and "decls s' = decls s"
    using process_file_own [of s] by blast
  then show ?thesis
    by (auto simp: file_code_header run_program_def)
qed

subsection \<open>Processing fails only in an import\<close>

text \<open>
  Claim C4 says that processing the file can never fail. The repository holds none of the
  React headers; on a search path that holds no more than the repository does, the first
  import, on line 11, is not found and processing returns that error.
\<close>

theorem missing_header_fails:
  "process_file repository_only empty_state = Inl (HeaderNotFound ''React/RCTBridgeModule.h'')"
  by (rule repository_only_fails)

text \<open>
  Claim C4, as amended. Processing the file fails only where one of its five imports
  fails: from every state, if each of the five headers can be entered, processing returns
  success; and an error returned by processing is the error of one of the five imports.
  No directive of the file's own can fail.
\<close>

theorem fails_only_in_an_import:
  "((\<forall>h s0. h \<in> set (file_imports header_lines) \<longrightarrow> (\<exists>s1. imp h s0 = Inr s1))
      \<longrightarrow> (\<exists>s'. process_file imp s = Inr s'))
   \<and> (process_file imp s = Inl e
      \<longrightarrow> (\<exists>h s0. h \<in> set (file_imports header_lines) \<and> imp h s0 = Inl e))"
  using process_file_succeeds_if [of imp s] process_file_error [of imp s e] by blast

text \<open>
  The same on the two search paths: with the stand-ins every import succeeds, and so does
  processing; with no React header, the error returned is that of an import.
\<close>

theorem fails_only_in_an_import_witness:
  "(\<exists>s'. process_file with_stand_ins debug_state = Inr s')
   \<and> process_file repository_only empty_state = Inl (HeaderNotFound ''React/RCTBridgeModule.h'')
   \<and> (\<exists>h s0. h \<in> set (file_imports header_lines)
        \<and> repository_only h s0 = Inl (HeaderNotFound ''React/RCTBridgeModule.h''))"
proof -
  have ok: "\<forall>h s0. h \<in> set (file_imports header_lines) \<longrightarrow> (\<exists>s1. with_stand_ins h s0 = Inr s1)"
    using stand_ins_succeed by blast
  have bad: "process_file repository_only empty_state
      = Inl (HeaderNotFound ''React/RCTBridgeModule.h'')"
    by (rule repository_only_fails)
  from fails_only_in_an_import [of with_stand_ins debug_state] ok
  have "\<exists>s'. process_file with_stand_ins debug_state = Inr s'" by blast
  moreover from fails_only_in_an_import
      [of repository_only empty_state "HeaderNotFound ''React/RCTBridgeModule.h''"] bad
  have "\<exists>h s0. h \<in> set (file_imports header_lines)
      \<and> repository_only h s0 = Inl (HeaderNotFound ''React/RCTBridgeModule.h'')" by blast
  ultimately show ?thesis using bad by blast
qed

subsection \<open>What processing leaves unchanged\<close>

text \<open>
  Claim C5 says that processing the file leaves every component of the state unchanged,
  all macro definitions included. Starting from the empty state, where the guard is
  undefined, the file's own \<open>#define\<close> on line 9 defines the guard macro, even when the
  imported headers contribute nothing: the resulting state is not the starting one.
\<close>

theorem guard_macro_is_changed:
  "macros empty_state Blaze_Bridging_Header_h = None
   \<and> process_file no_content empty_state =
       Inr (empty_state\<lparr>macros := (macros empty_state)(Blaze_Bridging_Header_h \<mapsto> []),
              imported := imported empty_state \<union> set (file_imports header_lines),
              once_only := once_only empty_state \<union> set (file_imports header_lines)\<rparr>)
   \<and> process_file no_content empty_state \<noteq> Inr empty_state"
proof -
  have u: "macros empty_state Blaze_Bridging_Header_h = None"
    by (simp add: empty_state_def)
  note r = process_file_own_undefined [OF u]
  have "process_file no_content empty_state \<noteq> Inr empty_state"
  proof
    assume "process_file no_content empty_state = Inr empty_state"
    with r have "macros (empty_state\<lparr>macros := (macros empty_state)(Blaze_Bridging_Header_h \<mapsto> []),
        imported := imported empty_state \<union> set (file_imports header_lines),
        once_only := once_only empty_state \<union> set (file_imports header_lines)\<rparr>)
        Blaze_Bridging_Header_h = macros empty_state Blaze_Bridging_Header_h"
      by simp
    with u show False by simp
  qed
  with u r show ?thesis by simp
qed

text \<open>
  Claim C5, as amended. The file's own directives define, own or mutate no entities, and
  of the macros they touch only the include guard. With imports that contribute nothing,
  processing leaves all entities (\<open>decls\<close>) and every macro definition other than that of
  \<open>Blaze_Bridging_Header_h\<close> unchanged. With any imports whatever, the entities are
  unchanged if the five imports leave them unchanged, and a macro other than the guard is
  unchanged if the five imports leave it unchanged: every other change comes from an
  imported header.
\<close>

theorem own_directives_change_only_the_guard:
  "(\<exists>s'. process_file no_content s = Inr s' \<and> decls s' = decls s
      \<and> (\<forall>m. m \<noteq> Blaze_Bridging_Header_h \<longrightarrow> macros s' m = macros s m))
   \<and> (process_file imp s = Inr t \<longrightarrow>
        ((\<forall>h s0 s1. h \<in> set (file_imports header_lines) \<longrightarrow> imp h s0 = Inr s1
            \<longrightarrow> decls s1 = decls s0)
          \<longrightarrow> decls t = decls s)
      \<and> (\<forall>m. m \<noteq> Blaze_Bridging_Header_h \<longrightarrow>
           (\<forall>h s0 s1. h \<in> set (file_imports header_lines) \<longrightarrow> imp h s0 = Inr s1
              \<longrightarrow> macros s1 m = macros s0 m)
           \<longrightarrow> macros t m = macros s m))"
proof (intro conjI impI allI)
  show "\<exists>s'. process_file no_content s = Inr s' \<and> decls s' = decls s
      \<and> (\<forall>m. m \<noteq> Blaze_Bridging_Header_h \<longrightarrow> macros s' m = macros s m)"
    by (rule process_file_own)
next
  assume r: "process_file imp s = Inr t"
    and k: "\<forall>h s0 s1. h \<in> set (file_imports header_lines) \<longrightarrow> imp h s0 = Inr s1
            \<longrightarrow> decls s1 = decls s0"
  show "decls t = decls s"
    using r by (rule process_file_keeps) (use k in simp_all)
next
  fix m
  assume r: "process_file imp s = Inr t"
    and m: "m \<noteq> Blaze_Bridging_Header_h"
    and k: "\<forall>h s0 s1. h \<in> set (file_imports header_lines) \<longrightarrow> imp h s0 = Inr s1
            \<longrightarrow> macros s1 m = macros s0 m"
  show "macros t m = macros s m"
    using r by (rule process_file_keeps [where f = "\<lambda>u. macros u m"]) (use k m in simp_all)
qed

text \<open>
  The same at a concrete state, where \<open>DEBUG\<close> is defined as \<open>1\<close> and one declaration is
  present: both are still there after the file is processed, with imports that contribute
  nothing and with the stand-ins, which declare nothing and leave \<open>DEBUG\<close> alone.
\<close>

theorem own_directives_change_only_the_guard_witness:
  "''DEBUG'' \<noteq> Blaze_Bridging_Header_h
   \<and> (\<exists>s'. process_file no_content debug_state = Inr s' \<and> decls s' = [''int counter;'']
        \<and> macros s' ''DEBUG'' = Some ''1'')
   \<and> (\<exists>t. process_file with_stand_ins debug_state = Inr t \<and> decls t = [''int counter;'']
        \<and> macros t ''DEBUG'' = Some ''1'')"
proof -
  have n: "''DEBUG'' \<noteq> Blaze_Bridging_Header_h"
    by (simp add: Blaze_Bridging_Header_h_def)
  obtain t where t: "process_file with_stand_ins debug_state = Inr t"
    using process_file_succeeds_if [of with_stand_ins debug_state] stand_ins_succeed by blast
  note inst = own_directives_change_only_the_guard [of debug_state with_stand_ins t]
  from inst obtain s' where s': "process_file no_content debug_state = Inr s'"
    "decls s' = decls debug_state"
    "\<forall>m. m \<noteq> Blaze_Bridging_Header_h \<longrightarrow> macros s' m = macros debug_state m"
    by blast
  from s' n have a: "process_file no_content debug_state = Inr s' \<and> decls s' = [''int counter;'']
      \<and> macros s' ''DEBUG'' = Some ''1''"
    by (simp add: debug_state_def)
  from inst t stand_ins_keep_decls have "decls t = decls debug_state" by blast
  moreover from inst t n stand_ins_keep_DEBUG
  have "macros t ''DEBUG'' = macros debug_state ''DEBUG''" by blast
  ultimately have b: "decls t = [''int counter;''] \<and> macros t ''DEBUG'' = Some ''1''"
    by (simp add: debug_state_def)
  from n a b t show ?thesis by blast
qed

subsection \<open>Comments, the include guard and the imports\<close>

text \<open>
  Claim C6 says that every non-empty line of the file is an \<open>#import\<close> or \<open>#include\<close>
  directive. Line 8 is not empty and is the directive \<open>#ifndef Blaze_Bridging_Header_h\<close>,
  which is not an import.
\<close>

theorem not_only_imports:
  "header_lines ! 7 \<noteq> []
   \<and> classify (header_lines ! 7) = Ifndef Blaze_Bridging_Header_h
   \<and> \<not> is_import (classify (header_lines ! 7))"
  by (simp add: header_lines_def Blaze_Bridging_Header_h_def, code_simp)

text \<open>
  Claim C6, as amended. The non-empty lines of the file are, in order, six comments, the
  guard's \<open>#ifndef\<close> and \<open>#define\<close>, the five \<open>#import\<close> directives and the guard's
  \<open>#endif\<close>: comments and preprocessor directives only. Consequently the file hands no
  program text of its own to the compiler, from any state.
\<close>

theorem comments_and_directives_only:
  "map classify (filter (\<lambda>l. l \<noteq> []) header_lines) =
     [Comment, Comment, Comment, Comment, Comment, Comment,
      Ifndef Blaze_Bridging_Header_h, Define Blaze_Bridging_Header_h [],
      Import ''React/RCTBridgeModule.h'', Import ''React/RCTEventEmitter.h'',
      Import ''React/RCTViewManager.h'', Import ''React/RCTConvert.h'',
      Import ''React/RCTLog.h'', Endif]
   \<and> (\<exists>s'. process_file no_content s = Inr s' \<and> decls s' = decls s)"
proof -
  have "map classify (filter (\<lambda>l. l \<noteq> []) header_lines) =
     [Comment, Comment, Comment, Comment, Comment, Comment,
      Ifndef Blaze_Bridging_Header_h, Define Blaze_Bridging_Header_h [],
      Import ''React/RCTBridgeModule.h'', Import ''React/RCTEventEmitter.h'',
      Import ''React/RCTViewManager.h'', Import ''React/RCTConvert.h'',
      Import ''React/RCTLog.h'', Endif]"
    unfolding Blaze_Bridging_Header_h_def by code_simp
  moreover have "\<exists>s'. process_file no_content s = Inr s' \<and> decls s' = decls s"
    using process_file_own [of s] by blast
  ultimately show ?thesis by simp
qed

subsection \<open>No global variable at any point of the file\<close>

text \<open>
  Claim C7. A global variable, a class hierarchy, a virtual call or a coroutine would each
  be program text, and no line of the file is program text. As an invariant over the whole
  content: after any number \<open>n\<close> of the file's lines, from any state, the file's own
  directives have handed nothing to the compiler; the program text is what it was before
  the file.
\<close>

theorem no_global_introduced:
  "\<not> list_ex is_code (map classify header_lines)
   \<and> (\<exists>c'. run_lines no_content (map classify (take n header_lines)) ([], s) = Inr c'
        \<and> decls (snd c') = decls s)"
proof -
  have nc: "\<not> list_ex is_code (map classify header_lines)"
    by (simp add: classify_header_lines)
  have "\<exists>c'. run_lines no_content (map classify header_lines) ([], s) = Inr c'"
    by (cases "macros s Blaze_Bridging_Header_h")
      (simp_all add: run_header_undefined run_header_defined import_all_no_content)
  then obtain c where "run_lines no_content (map classify header_lines) ([], s) = Inr c" ..
  then have "run_lines no_content
      (map classify (take n header_lines) @ map classify (drop n header_lines)) ([], s) = Inr c"
    by (simp flip: map_append)
  then obtain d where d: "run_lines no_content (map classify (take n header_lines)) ([], s) = Inr d"
    using run_lines_prefix by blast
  have "\<not> list_ex is_code (map classify (take n header_lines))"
    using nc by (auto simp: list_ex_iff dest: in_set_takeD)
  from run_lines_keeps_decls [OF this d] have "decls (snd d) = decls s" by simp
  with nc d show ?thesis by blast
qed

subsection \<open>The include guard\<close>


text \<open>
  Claim C9 says that, the guard being undefined, the resulting macro environment is the
  starting one plus the guard macro alone. The imported headers are processed too, and
  they define macros of their own: with the stand-ins, \<open>RCTLOG_ENABLED\<close> is defined after
  the file is processed from the empty state, and it is not in the empty environment plus
  the guard.
\<close>

theorem imported_header_defines_a_macro:
  "macros empty_state Blaze_Bridging_Header_h = None
   \<and> macro_after (process_file with_stand_ins empty_state) ''RCTLOG_ENABLED'' = Inr (Some ''1'')
   \<and> ((macros empty_state)(Blaze_Bridging_Header_h \<mapsto> [])) ''RCTLOG_ENABLED'' = None"
  by (simp add: stand_ins_empty_state macro_after_def)
    (simp add: empty_state_def Blaze_Bridging_Header_h_def)

text \<open>
  Claim C9, as amended. The file's own directives define exactly one macro,
  \<open>Blaze_Bridging_Header_h\<close>, and modify no other macro definition. For every starting
  state in which the guard is undefined: processing the file is importing its five
  headers, in order, in the starting state plus the single guard macro; with imports that
  contribute nothing, the resulting environment equals the starting one plus the guard;
  and so it does whenever the five imports leave the macro environment unchanged.
\<close>

theorem own_directives_define_only_the_guard:
  assumes "macros s Blaze_Bridging_Header_h = None"
  shows "process_file imp s =
       import_all imp (file_imports header_lines)
         (s\<lparr>macros := (macros s)(Blaze_Bridging_Header_h \<mapsto> [])\<rparr>)
   \<and> (\<exists>s'. process_file no_content s = Inr s'
        \<and> macros s' = (macros s)(Blaze_Bridging_Header_h \<mapsto> [])
        \<and> dom (macros s') = insert Blaze_Bridging_Header_h (dom (macros s)))
   \<and> ((\<forall>h s0 s1. h \<in> set (file_imports header_lines) \<longrightarrow> imp h s0 = Inr s1
          \<longrightarrow> macros s1 = macros s0)
       \<longrightarrow> (\<forall>t. process_file imp s = Inr t
              \<longrightarrow> macros t = (macros s)(Blaze_Bridging_Header_h \<mapsto> [])))"
proof (intro conjI impI allI)
  show c: "process_file imp s =
       import_all imp (file_imports header_lines)
         (s\<lparr>macros := (macros s)(Blaze_Bridging_Header_h \<mapsto> [])\<rparr>)"
    using assms by (rule process_file_undefined)
  show "\<exists>s'. process_file no_content s = Inr s'
        \<and> macros s' = (macros s)(Blaze_Bridging_Header_h \<mapsto> [])
        \<and> dom (macros s') = insert Blaze_Bridging_Header_h (dom (macros s))"
    using assms by (simp add: process_file_own_undefined)
  fix t
  assume k: "\<forall>h s0 s1. h \<in> set (file_imports header_lines) \<longrightarrow> imp h s0 = Inr s1
          \<longrightarrow> macros s1 = macros s0"
    and r: "process_file imp s = Inr t"
  from r c have "import_all imp (file_imports header_lines)
         (s\<lparr>macros := (macros s)(Blaze_Bridging_Header_h \<mapsto> [])\<rparr>) = Inr t"
    by simp
  then have "macros t = macros (s\<lparr>macros := (macros s)(Blaze_Bridging_Header_h \<mapsto> [])\<rparr>)"
    by (rule import_all_keeps) (use k in simp_all)
  then show "macros t = (macros s)(Blaze_Bridging_Header_h \<mapsto> [])" by simp
qed

text \<open>
  The same at a concrete state, with only \<open>DEBUG\<close> defined before: with the stand-ins,
  processing is the five imports after the guard's definition; with imports that
  contribute nothing, exactly \<open>DEBUG\<close> and the guard are defined after.
\<close>

theorem own_directives_define_only_the_guard_witness:
  "macros debug_state Blaze_Bridging_Header_h = None
   \<and> process_file with_stand_ins debug_state =
       import_all with_stand_ins (file_imports header_lines)
         (debug_state\<lparr>macros := (macros debug_state)(Blaze_Bridging_Header_h \<mapsto> [])\<rparr>)
   \<and> (\<exists>s'. process_file no_content debug_state = Inr s'
        \<and> macros s' = [''DEBUG'' \<mapsto> ''1'', Blaze_Bridging_Header_h \<mapsto> []]
        \<and> dom (macros s') = {Blaze_Bridging_Header_h, ''DEBUG''})"
proof -
  have u: "macros debug_state Blaze_Bridging_Header_h = None"
    by (simp add: debug_state_def Blaze_Bridging_Header_h_def)
  have k: "\<forall>h s0 s1. h \<in> set (file_imports header_lines) \<longrightarrow> no_content h s0 = Inr s1
          \<longrightarrow> macros s1 = macros s0"
    by (simp add: no_content_def)
  from own_directives_define_only_the_guard [OF u, of with_stand_ins]
  have a: "process_file with_stand_ins debug_state =
       import_all with_stand_ins (file_imports header_lines)
         (debug_state\<lparr>macros := (macros debug_state)(Blaze_Bridging_Header_h \<mapsto> [])\<rparr>)"
    by blast
  from own_directives_define_only_the_guard [OF u, of no_content] k
  obtain s' where s': "process_file no_content debug_state = Inr s'"
    and m: "macros s' = (macros debug_state)(Blaze_Bridging_Header_h \<mapsto> [])"
    by blast
  from m have "macros s' = [''DEBUG'' \<mapsto> ''1'', Blaze_Bridging_Header_h \<mapsto> []]
      \<and> dom (macros s') = {Blaze_Bridging_Header_h, ''DEBUG''}"
    by (auto simp: debug_state_def)
  with u a s' show ?thesis by blast
qed

text \<open>
  Claim C10 says that two states agreeing on whether the guard is defined get the same
  change to the macro environment. The imported headers read other macros: with the
  stand-ins, the guard is undefined in the empty state and in the state that defines
  \<open>DEBUG\<close>, \<open>RCT_DEBUG\<close> is undefined in both, and after the file is processed \<open>RCT_DEBUG\<close>
  is defined in the second and not in the first.
\<close>

theorem imported_header_reads_another_macro:
  "(macros empty_state Blaze_Bridging_Header_h = None)
     = (macros debug_state Blaze_Bridging_Header_h = None)
   \<and> macros empty_state ''RCT_DEBUG'' = None
   \<and> macros debug_state ''RCT_DEBUG'' = None
   \<and> macro_after (process_file with_stand_ins empty_state) ''RCT_DEBUG'' = Inr None
   \<and> macro_after (process_file with_stand_ins debug_state) ''RCT_DEBUG'' = Inr (Some ''1'')"
  by (simp add: stand_ins_empty_state stand_ins_debug_state macro_after_def)
    (simp add: empty_state_def debug_state_def Blaze_Bridging_Header_h_def)

text \<open>
  Claim C10, as amended. The effect of the file's own directives depends only on whether
  the guard is defined. For two states that agree on that: with imports that contribute
  nothing, there is one set \<open>H\<close> of headers and one macro update \<open>D\<close> such that processing
  adds \<open>H\<close> to the imports and \<open>D\<close> to the macros of both (the five imports and the guard's
  definition when the guard is undefined, nothing otherwise); and with any imports
  whatever, either both states are returned unchanged, or in both the guard is defined and
  then the same five headers are imported in the same order. No other macro of either
  state has any influence but through an imported header.
\<close>

theorem own_effect_depends_only_on_guard:
  assumes "(macros s1 Blaze_Bridging_Header_h = None) = (macros s2 Blaze_Bridging_Header_h = None)"
  shows "(\<exists>H D.
      (\<exists>s1'. process_file no_content s1 = Inr s1' \<and> imported s1' = imported s1 \<union> H
         \<and> macros s1' = macros s1 ++ D \<and> decls s1' = decls s1)
    \<and> (\<exists>s2'. process_file no_content s2 = Inr s2' \<and> imported s2' = imported s2 \<union> H
         \<and> macros s2' = macros s2 ++ D \<and> decls s2' = decls s2)
    \<and> H = (if macros s1 Blaze_Bridging_Header_h = None then set (file_imports header_lines) else {})
    \<and> D = (if macros s1 Blaze_Bridging_Header_h = None then [Blaze_Bridging_Header_h \<mapsto> []]
           else Map.empty))
   \<and> (if macros s1 Blaze_Bridging_Header_h = None
      then process_file imp s1 =
             import_all imp (file_imports header_lines)
               (s1\<lparr>macros := (macros s1)(Blaze_Bridging_Header_h \<mapsto> [])\<rparr>)
         \<and> process_file imp s2 =
             import_all imp (file_imports header_lines)
               (s2\<lparr>macros := (macros s2)(Blaze_Bridging_Header_h \<mapsto> [])\<rparr>)
      else process_file imp s1 = Inr s1 \<and> process_file imp s2 = Inr s2)"
proof (cases "macros s1 Blaze_Bridging_Header_h")
  case None
  with assms have "macros s2 Blaze_Bridging_Header_h = None" by simp
  with None show ?thesis
    by (simp add: process_file_own_undefined map_add_upd)
      (simp add: process_file_undefined)
next
  case (Some b)
  with assms obtain b' where "macros s2 Blaze_Bridging_Header_h = Some b'" by auto
  with Some show ?thesis by (simp add: process_file_defined)
qed

text \<open>
  The same for the empty state and the state that defines \<open>DEBUG\<close>: the guard is undefined
  in both, the file's own directives give both the five imports and the guard, and with
  the stand-ins both are processed as the same five imports after the guard's definition.
\<close>

theorem own_effect_depends_only_on_guard_witness:
  "(macros empty_state Blaze_Bridging_Header_h = None)
     = (macros debug_state Blaze_Bridging_Header_h = None)
   \<and> (\<exists>H D.
      (\<exists>s1'. process_file no_content empty_state = Inr s1'
         \<and> imported s1' = imported empty_state \<union> H
         \<and> macros s1' = macros empty_state ++ D \<and> decls s1' = decls empty_state)
    \<and> (\<exists>s2'. process_file no_content debug_state = Inr s2'
         \<and> imported s2' = imported debug_state \<union> H
         \<and> macros s2' = macros debug_state ++ D \<and> decls s2' = decls debug_state)
    \<and> H = set (file_imports header_lines)
    \<and> D = [Blaze_Bridging_Header_h \<mapsto> []])
   \<and> process_file with_stand_ins empty_state =
       import_all with_stand_ins (file_imports header_lines)
         (empty_state\<lparr>macros := (macros empty_state)(Blaze_Bridging_Header_h \<mapsto> [])\<rparr>)
   \<and> process_file with_stand_ins debug_state =
       import_all with_stand_ins (file_imports header_lines)
         (debug_state\<lparr>macros := (macros debug_state)(Blaze_Bridging_Header_h \<mapsto> [])\<rparr>)"
proof -
  have u1: "macros empty_state Blaze_Bridging_Header_h = None"
    by (simp add: empty_state_def)
  have u2: "macros debug_state Blaze_Bridging_Header_h = None"
    by (simp add: debug_state_def Blaze_Bridging_Header_h_def)
  from u1 u2 have e: "(macros empty_state Blaze_Bridging_Header_h = None)
     = (macros debug_state Blaze_Bridging_Header_h = None)" by simp
  from own_effect_depends_only_on_guard [OF e, of with_stand_ins] u1 u2 show ?thesis by simp
qed

end
